theory Spec2Isabelle
  imports Complex_Main
begin

section \<open>Profiling manager of Hermes (stats\_app.py)\<close>

text \<open>
  The development embeds \<^verbatim>\<open>ProfilingManager\<close> and \<^verbatim>\<open>_configure_profiling\<close> of
  \<^verbatim>\<open>Hermes/appscale/hermes/stats/stats_app.py\<close> (Python 2, Tornado).

  The manager object, the profile logs and the periodic callbacks it creates, the
  IOLoop's queue of scheduled callbacks and the futures waiting for stats live in one
  record \<open>world\<close>. Objects are referred to by their index in a list that only grows, so
  two references are the same object exactly when they are the same index. Every
  effect that leaves the process state (a logging call, a fetch from a stats source,
  a write to a profile log, starting or stopping a timer) is appended to \<open>trace\<close>.

  A handler returns the exception that escaped it, if any, together with the world
  at that moment: what it mutated before raising stays mutated.
\<close>

subsection \<open>Python values\<close>

text \<open>A Python float is an IEEE double: a finite one is written as the real number
  it denotes, and there are the two infinities and not-a-number.\<close>

datatype pyfloat = Finite real | PosInf | NegInf | NaN

text \<open>What \<^verbatim>\<open>json.loads\<close> returns. A dict is the association list of its items,
  read with \<open>map_of\<close>.\<close>

datatype json =
    JNull
  | JBool bool
  | JInt int
  | JFloat pyfloat
  | JString string
  | JArray "json list"
  | JObject "(string \<times> json) list"

datatype py_error = ValueError | KeyError string | TypeError | OverflowError

text \<open>\<^verbatim>\<open>conf[key]\<close>: only a dict can be indexed by a string; a missing key raises.\<close>

fun getitem :: "json \<Rightarrow> string \<Rightarrow> py_error + json" where
  "getitem (JObject kvs) k = (case map_of kvs k of None \<Rightarrow> Inl (KeyError k) | Some v \<Rightarrow> Inr v)"
| "getitem _ k = Inl TypeError"

text \<open>The truth value Python gives an object in \<^verbatim>\<open>if enabled:\<close>. Of the floats only
  zero is false.\<close>

fun truthy :: "json \<Rightarrow> bool" where
  "truthy JNull = False"
| "truthy (JBool b) = b"
| "truthy (JInt n) = (n \<noteq> 0)"
| "truthy (JFloat x) = (x \<noteq> Finite 0)"
| "truthy (JString s) = (s \<noteq> [])"
| "truthy (JArray xs) = (xs \<noteq> [])"
| "truthy (JObject kvs) = (kvs \<noteq> [])"

text \<open>
  \<^verbatim>\<open>interval*1000\<close>, the callback time handed to \<^verbatim>\<open>PeriodicCallback\<close>: an int (a bool
  is an int) gives the int product; a float \<open>x\<close> gives the double \<^verbatim>\<open>x * 1000\<close>, kept
  here as \<open>FloatMillis x\<close> without computing its rounding; a string or a list gives
  itself repeated a thousand times, kept as \<open>Repeated\<close>; \<^verbatim>\<open>None\<close> and a dict raise
  TypeError.
\<close>

datatype callback_time = IntMillis int | FloatMillis pyfloat | Repeated json

fun times_1000 :: "json \<Rightarrow> py_error + callback_time" where
  "times_1000 JNull = Inl TypeError"
| "times_1000 (JBool b) = Inr (IntMillis (if b then 1000 else 0))"
| "times_1000 (JInt n) = Inr (IntMillis (n * 1000))"
| "times_1000 (JFloat x) = Inr (FloatMillis x)"
| "times_1000 (JString s) = Inr (Repeated (JString s))"
| "times_1000 (JArray xs) = Inr (Repeated (JArray xs))"
| "times_1000 (JObject kvs) = Inl TypeError"

subsection \<open>Objects and the world\<close>

datatype category = Nodes | Processes | Proxies

datatype stats_source =
  ClusterNodesStatsSource | ClusterProcessesStatsSource | ClusterProxiesStatsSource

type_synonym include_lists = "(string \<times> string list) list"

definition DEFAULT_INCLUDE_LISTS :: include_lists where
  "DEFAULT_INCLUDE_LISTS =
    [(''node'', [''utc_timestamp'', ''cpu'', ''memory'', ''partitions_dict'', ''loadavg'']),
     (''node.cpu'', [''percent'', ''count'']),
     (''node.memory'', [''available'', ''total'']),
     (''node.partition'', [''free'', ''used'']),
     (''node.loadavg'', [''last_5min'']),
     (''process'', [''monit_name'', ''unified_service_name'', ''application_id'',
                    ''port'', ''cpu'', ''memory'', ''children_stats_sum'']),
     (''process.cpu'', [''user'', ''system'', ''percent'']),
     (''process.memory'', [''resident'', ''virtual'', ''unique'']),
     (''process.children_stats_sum'', [''cpu'', ''memory'']),
     (''proxy'', [''name'', ''unified_service_name'', ''application_id'',
                  ''frontend'', ''backend'', ''servers_count'']),
     (''proxy.frontend'', [''bin'', ''bout'', ''scur'', ''smax'', ''rate'',
                           ''req_rate'', ''req_tot'', ''hrsp_4xx'', ''hrsp_5xx'']),
     (''proxy.backend'', [''qcur'', ''scur'', ''hrsp_5xx'', ''qtime'', ''rtime'']),
     (''rabbitmq'', [''utc_timestamp'', ''disk_free_alarm'', ''mem_alarm'', ''name'']),
     (''queue'', [''name'', ''messages''])]"

type_synonym log_ref = nat
type_synonym task_ref = nat

text \<open>
  Modelled from the spec: the profile log classes \<^verbatim>\<open>NodesProfileLog\<close>,
  \<^verbatim>\<open>ProcessesProfileLog\<close> and \<^verbatim>\<open>ProxiesProfileLog\<close> of
  \<^verbatim>\<open>appscale.hermes.stats.profile\<close> are not among the sources. A profile log is an
  opaque sink with \<^verbatim>\<open>write(snapshot)\<close> and a mutable \<^verbatim>\<open>write_detailed_stats\<close>
  attribute; constructing one makes a new object. \<open>write_detailed_stats\<close> is \<open>None\<close>
  as long as the manager has not assigned the attribute.
\<close>

record profile_log =
  log_class :: category
  log_include_lists :: include_lists
  write_detailed_stats :: "json option"

text \<open>
  \<^verbatim>\<open>tornado.ioloop.PeriodicCallback\<close>, with the two closure variables of the callback
  \<^verbatim>\<open>profiling_periodical_callback\<close> it was built around. \<open>running\<close> is Tornado's
  \<^verbatim>\<open>_running\<close>: the first statement of \<^verbatim>\<open>start()\<close> sets it, \<^verbatim>\<open>stop()\<close> clears it.
  \<open>scheduled\<close> says that the IOLoop holds a timeout for the callback (Tornado's
  \<^verbatim>\<open>_timeout\<close> is not \<^verbatim>\<open>None\<close>): a \<^verbatim>\<open>start()\<close> that returns has set one, \<^verbatim>\<open>stop()\<close>
  removes it. The timer runs the callback only while both hold.
\<close>

record periodic_callback =
  stats_source :: stats_source
  profiler :: log_ref
  callback_time :: callback_time
  running :: bool
  scheduled :: bool

text \<open>
  Tornado is not part of the sources. For which callback times the constructor of
  \<^verbatim>\<open>PeriodicCallback\<close> raises, and for which \<^verbatim>\<open>start()\<close> raises after it has set
  \<^verbatim>\<open>_running\<close>, is a parameter of the world, so that what is proved holds whatever
  the installed Tornado does there. Library calls are taken to return or to raise.
\<close>

record tornado =
  init_raises :: "callback_time \<Rightarrow> py_error option"
  start_raises :: "callback_time \<Rightarrow> py_error option"

datatype snapshot = Snapshot nat

datatype znode_stat = ZnodeStat nat

datatype event =
    LoggingDebug string
  | LoggingInfo string
  | PeriodicCallbackStart task_ref
  | PeriodicCallbackStop task_ref
  | GetCurrentAsync stats_source int
  | ProfileLogWrite log_ref snapshot
  | CallbackException py_error

text \<open>An update function is one of the three bound methods of the manager,
  named by its category.\<close>

type_synonym update_function = category

record world =
  nodes_profile_log :: "log_ref option"
  processes_profile_log :: "log_ref option"
  proxies_profile_log :: "log_ref option"
  nodes_profile_task :: "task_ref option"
  processes_profile_task :: "task_ref option"
  proxies_profile_task :: "task_ref option"
  logs :: "profile_log list"
  tasks :: "periodic_callback list"
  callbacks :: "(update_function \<times> string option \<times> znode_stat) list"
  futures :: "(stats_source \<times> log_ref) list"
  trace :: "event list"
  library :: tornado

text \<open>\<^verbatim>\<open>ProfilingManager.__init__\<close>, in a process with the given Tornado: all six
  attributes are \<^verbatim>\<open>None\<close>.\<close>

definition manager :: "tornado \<Rightarrow> world" where
  "manager T = \<lparr> nodes_profile_log = None, processes_profile_log = None,
                 proxies_profile_log = None, nodes_profile_task = None,
                 processes_profile_task = None, proxies_profile_task = None,
                 logs = [], tasks = [], callbacks = [], futures = [], trace = [],
                 library = T \<rparr>"

text \<open>
  What Tornado 4 does, used in the examples: the constructor raises ValueError unless
  \<^verbatim>\<open>callback_time > 0\<close> (in Python 2 a string or a list is above every number, and the
  double \<^verbatim>\<open>x * 1000\<close> has the sign of \<open>x\<close>); \<^verbatim>\<open>start()\<close> computes
  \<^verbatim>\<open>callback_time / 1000.0\<close>, which raises TypeError for a string or a list and
  OverflowError for an int that rounds to no finite double.
\<close>

fun le_zero :: "callback_time \<Rightarrow> bool" where
  "le_zero (IntMillis n) = (n \<le> 0)"
| "le_zero (FloatMillis (Finite r)) = (r \<le> 0)"
| "le_zero (FloatMillis NegInf) = True"
| "le_zero (FloatMillis PosInf) = False"
| "le_zero (FloatMillis NaN) = False"
| "le_zero (Repeated v) = False"

fun division_raises :: "callback_time \<Rightarrow> py_error option" where
  "division_raises (IntMillis n) =
     (if 2 ^ 1024 - 2 ^ 970 \<le> \<bar>n\<bar> then Some OverflowError else None)"
| "division_raises (FloatMillis x) = None"
| "division_raises (Repeated v) = Some TypeError"

definition tornado_4 :: tornado where
  "tornado_4 = \<lparr> init_raises = (\<lambda>ct. if le_zero ct then Some ValueError else None),
                 start_raises = division_raises \<rparr>"

definition init :: world where
  "init = manager tornado_4"

definition emit :: "event \<Rightarrow> world \<Rightarrow> world" where
  "emit e w = w\<lparr>trace := trace w @ [e]\<rparr>"

subsection \<open>Library calls\<close>

definition new_profile_log :: "category \<Rightarrow> include_lists \<Rightarrow> world \<Rightarrow> log_ref \<times> world" where
  "new_profile_log c incl w =
     (length (logs w),
      w\<lparr>logs := logs w @ [\<lparr>log_class = c, log_include_lists = incl,
                              write_detailed_stats = None\<rparr>]\<rparr>)"

definition set_write_detailed_stats :: "log_ref \<Rightarrow> json \<Rightarrow> world \<Rightarrow> world" where
  "set_write_detailed_stats l v w =
     w\<lparr>logs := (logs w)[l := (logs w ! l)\<lparr>write_detailed_stats := Some v\<rparr>]\<rparr>"

text \<open>The constructor either raises, and there is no new object, or returns a new
  periodic callback that is not running.\<close>

definition PeriodicCallback :: "stats_source \<Rightarrow> log_ref \<Rightarrow> callback_time \<Rightarrow> world \<Rightarrow> (py_error + task_ref) \<times> world" where
  "PeriodicCallback src prof ct w =
     (case init_raises (library w) ct of
        Some e \<Rightarrow> (Inl e, w)
      | None \<Rightarrow>
          (Inr (length (tasks w)),
           w\<lparr>tasks := tasks w @ [\<lparr>stats_source = src, profiler = prof, callback_time = ct,
                                   running = False, scheduled = False\<rparr>]\<rparr>))"

text \<open>\<^verbatim>\<open>start()\<close> sets \<^verbatim>\<open>_running\<close> and then schedules the first timeout, unless it
  raises on the way.\<close>

definition start :: "task_ref \<Rightarrow> world \<Rightarrow> py_error option \<times> world" where
  "start t w =
     (let r = start_raises (library w) (callback_time (tasks w ! t));
          w' = emit (PeriodicCallbackStart t)
                 (w\<lparr>tasks := (tasks w)[t := (tasks w ! t)\<lparr>running := True,
                                                         scheduled := (r = None)\<rparr>]\<rparr>)
      in (r, w'))"

definition stop :: "task_ref \<Rightarrow> world \<Rightarrow> world" where
  "stop t w =
     emit (PeriodicCallbackStop t)
       (w\<lparr>tasks := (tasks w)[t := (tasks w ! t)\<lparr>running := False, scheduled := False\<rparr>]\<rparr>)"

subsection \<open>\_configure\_profiling\<close>

definition configure_profiling :: "stats_source \<Rightarrow> log_ref \<Rightarrow> json \<Rightarrow> world \<Rightarrow> (py_error + task_ref) \<times> world" where
  "configure_profiling src prof interval w =
     (case times_1000 interval of
        Inl e \<Rightarrow> (Inl e, w)
      | Inr ct \<Rightarrow> PeriodicCallback src prof ct w)"

text \<open>The callback of the periodic task: one fetch with \<^verbatim>\<open>max_age=0\<close>, and the
  future it returns is handed to the IOLoop together with \<^verbatim>\<open>write_stats_callback\<close>.\<close>

definition profiling_periodical_callback :: "stats_source \<Rightarrow> log_ref \<Rightarrow> world \<Rightarrow> world" where
  "profiling_periodical_callback src prof w =
     (let w1 = emit (GetCurrentAsync src 0) w
      in w1\<lparr>futures := futures w1 @ [(src, prof)]\<rparr>)"

text \<open>\<^verbatim>\<open>future_stats.result()\<close> raises the future's exception if it failed;
  otherwise the first component of the result goes to the profile log.\<close>

definition write_stats_callback :: "log_ref \<Rightarrow> py_error + snapshot \<Rightarrow> world \<Rightarrow> py_error option \<times> world" where
  "write_stats_callback prof future_stats w =
     (case future_stats of
        Inl e \<Rightarrow> (Some e, w)
      | Inr stats \<Rightarrow> (None, emit (ProfileLogWrite prof stats) w))"

subsection \<open>The handlers\<close>

text \<open>\<^verbatim>\<open>json.loads\<close> belongs to the Python standard library; the handlers take it as
  the parameter \<open>json_loads\<close>, so what is proved of them holds whatever it returns.\<close>

definition update_nodes_profiling_conf ::
  "(string \<Rightarrow> py_error + json) \<Rightarrow> string option \<Rightarrow> znode_stat \<Rightarrow> world \<Rightarrow> py_error option \<times> world" where
  "update_nodes_profiling_conf json_loads new_conf znode_stat w =
     (if new_conf = None \<or> new_conf = Some [] then
        (None, emit (LoggingDebug ''No node stats profiling configs are specified yet'') w)
      else
        (let raw = (case new_conf of Some s \<Rightarrow> s | None \<Rightarrow> []);
             w1 = emit (LoggingInfo (''New nodes stats profiling configs: '' @ raw)) w
         in
           (case json_loads raw of Inl e \<Rightarrow> (Some e, w1) | Inr conf \<Rightarrow>
           (case getitem conf ''enabled'' of Inl e \<Rightarrow> (Some e, w1) | Inr enabled \<Rightarrow>
           (case getitem conf ''interval'' of Inl e \<Rightarrow> (Some e, w1) | Inr interval \<Rightarrow>
             (if truthy enabled then
                (let (l, w2) =
                       (case nodes_profile_log w1 of
                          None \<Rightarrow>
                            (let (l', w') = new_profile_log Nodes DEFAULT_INCLUDE_LISTS w1
                             in (l', w'\<lparr>nodes_profile_log := Some l'\<rparr>))
                        | Some l' \<Rightarrow> (l', w1));
                     w4 = (case nodes_profile_task w2 of Some t \<Rightarrow> stop t w2 | None \<Rightarrow> w2)
                 in (case configure_profiling ClusterNodesStatsSource l interval w4 of
                       (Inl e, w5) \<Rightarrow> (Some e, w5)
                     | (Inr t, w5) \<Rightarrow> start t (w5\<lparr>nodes_profile_task := Some t\<rparr>)))
              else
                (case nodes_profile_task w1 of
                   Some t \<Rightarrow> (None, (stop t w1)\<lparr>nodes_profile_task := None\<rparr>)
                 | None \<Rightarrow> (None, w1))))))))"

definition update_processes_profiling_conf ::
  "(string \<Rightarrow> py_error + json) \<Rightarrow> string option \<Rightarrow> znode_stat \<Rightarrow> world \<Rightarrow> py_error option \<times> world" where
  "update_processes_profiling_conf json_loads new_conf znode_stat w =
     (if new_conf = None \<or> new_conf = Some [] then
        (None, emit (LoggingDebug ''No processes stats profiling configs are specified yet'') w)
      else
        (let raw = (case new_conf of Some s \<Rightarrow> s | None \<Rightarrow> []);
             w1 = emit (LoggingInfo (''New processes stats profiling configs: '' @ raw)) w
         in
           (case json_loads raw of Inl e \<Rightarrow> (Some e, w1) | Inr conf \<Rightarrow>
           (case getitem conf ''enabled'' of Inl e \<Rightarrow> (Some e, w1) | Inr enabled \<Rightarrow>
           (case getitem conf ''interval'' of Inl e \<Rightarrow> (Some e, w1) | Inr interval \<Rightarrow>
           (case getitem conf ''detailed'' of Inl e \<Rightarrow> (Some e, w1) | Inr detailed \<Rightarrow>
             (if truthy enabled then
                (let (l, w2) =
                       (case processes_profile_log w1 of
                          None \<Rightarrow>
                            (let (l', w') = new_profile_log Processes DEFAULT_INCLUDE_LISTS w1
                             in (l', w'\<lparr>processes_profile_log := Some l'\<rparr>))
                        | Some l' \<Rightarrow> (l', w1));
                     w3 = set_write_detailed_stats l detailed w2;
                     w4 = (case processes_profile_task w3 of Some t \<Rightarrow> stop t w3 | None \<Rightarrow> w3)
                 in (case configure_profiling ClusterProcessesStatsSource l interval w4 of
                       (Inl e, w5) \<Rightarrow> (Some e, w5)
                     | (Inr t, w5) \<Rightarrow> start t (w5\<lparr>processes_profile_task := Some t\<rparr>)))
              else
                (case processes_profile_task w1 of
                   Some t \<Rightarrow> (None, (stop t w1)\<lparr>processes_profile_task := None\<rparr>)
                 | None \<Rightarrow> (None, w1)))))))))"

definition update_proxies_profiling_conf ::
  "(string \<Rightarrow> py_error + json) \<Rightarrow> string option \<Rightarrow> znode_stat \<Rightarrow> world \<Rightarrow> py_error option \<times> world" where
  "update_proxies_profiling_conf json_loads new_conf znode_stat w =
     (if new_conf = None \<or> new_conf = Some [] then
        (None, emit (LoggingDebug ''No proxies stats profiling configs are specified yet'') w)
      else
        (let raw = (case new_conf of Some s \<Rightarrow> s | None \<Rightarrow> []);
             w1 = emit (LoggingInfo (''New proxies stats profiling configs: '' @ raw)) w
         in
           (case json_loads raw of Inl e \<Rightarrow> (Some e, w1) | Inr conf \<Rightarrow>
           (case getitem conf ''enabled'' of Inl e \<Rightarrow> (Some e, w1) | Inr enabled \<Rightarrow>
           (case getitem conf ''interval'' of Inl e \<Rightarrow> (Some e, w1) | Inr interval \<Rightarrow>
           (case getitem conf ''detailed'' of Inl e \<Rightarrow> (Some e, w1) | Inr detailed \<Rightarrow>
             (if truthy enabled then
                (let (l, w2) =
                       (case proxies_profile_log w1 of
                          None \<Rightarrow>
                            (let (l', w') = new_profile_log Proxies DEFAULT_INCLUDE_LISTS w1
                             in (l', w'\<lparr>proxies_profile_log := Some l'\<rparr>))
                        | Some l' \<Rightarrow> (l', w1));
                     w3 = set_write_detailed_stats l detailed w2;
                     w4 = (case proxies_profile_task w3 of Some t \<Rightarrow> stop t w3 | None \<Rightarrow> w3)
                 in (case configure_profiling ClusterProxiesStatsSource l interval w4 of
                       (Inl e, w5) \<Rightarrow> (Some e, w5)
                     | (Inr t, w5) \<Rightarrow> start t (w5\<lparr>proxies_profile_task := Some t\<rparr>)))
              else
                (case proxies_profile_task w1 of
                   Some t \<Rightarrow> (None, (stop t w1)\<lparr>proxies_profile_task := None\<rparr>)
                 | None \<Rightarrow> (None, w1)))))))))"

subsection \<open>The bridge and the IOLoop\<close>

text \<open>\<^verbatim>\<open>IOLoop.add_callback(callback, *args)\<close> puts the call at the end of the loop's queue
  and returns.\<close>

definition add_callback :: "update_function \<Rightarrow> string option \<Rightarrow> znode_stat \<Rightarrow> world \<Rightarrow> world" where
  "add_callback callback new_conf znode_stat w =
     w\<lparr>callbacks := callbacks w @ [(callback, new_conf, znode_stat)]\<rparr>"

definition bridge_to_ioloop :: "update_function \<Rightarrow> string option \<Rightarrow> znode_stat \<Rightarrow> world \<Rightarrow> world" where
  "bridge_to_ioloop update_function =
     (\<lambda>new_conf znode_stat. add_callback update_function new_conf znode_stat)"

text \<open>Calling the bound method an \<open>update_function\<close> names.\<close>

fun call :: "(string \<Rightarrow> py_error + json) \<Rightarrow> update_function \<Rightarrow> string option \<Rightarrow> znode_stat \<Rightarrow> world \<Rightarrow> py_error option \<times> world" where
  "call json_loads Nodes = update_nodes_profiling_conf json_loads"
| "call json_loads Processes = update_processes_profiling_conf json_loads"
| "call json_loads Proxies = update_proxies_profiling_conf json_loads"

text \<open>
  What can happen next in the process: a watch delivers a value to the bridged
  handler of a category, the IOLoop runs the callback at the head of its queue, the
  timer of a periodic callback fires, or a pending future completes (with stats or
  with an exception). The IOLoop logs an exception that escapes a callback and goes on.
\<close>

datatype action =
    Notify update_function "string option" znode_stat
  | RunCallback
  | Tick task_ref
  | Resolve nat "py_error + snapshot"

definition logged :: "py_error option \<times> world \<Rightarrow> world" where
  "logged r = (case r of (None, w) \<Rightarrow> w | (Some e, w) \<Rightarrow> emit (CallbackException e) w)"

definition run_callback :: "(string \<Rightarrow> py_error + json) \<Rightarrow> world \<Rightarrow> world" where
  "run_callback json_loads w =
     (case callbacks w of
        [] \<Rightarrow> w
      | (f, new_conf, znode_stat) # rest \<Rightarrow>
          logged (call json_loads f new_conf znode_stat (w\<lparr>callbacks := rest\<rparr>)))"

definition tick :: "task_ref \<Rightarrow> world \<Rightarrow> world" where
  "tick t w =
     (if t < length (tasks w) \<and> running (tasks w ! t) \<and> scheduled (tasks w ! t)
      then profiling_periodical_callback (stats_source (tasks w ! t)) (profiler (tasks w ! t)) w
      else w)"

definition resolve :: "nat \<Rightarrow> py_error + snapshot \<Rightarrow> world \<Rightarrow> world" where
  "resolve i r w =
     (if i < length (futures w)
      then logged (write_stats_callback (snd (futures w ! i)) r
                     (w\<lparr>futures := take i (futures w) @ drop (Suc i) (futures w)\<rparr>))
      else w)"

fun step :: "(string \<Rightarrow> py_error + json) \<Rightarrow> action \<Rightarrow> world \<Rightarrow> world" where
  "step json_loads (Notify f new_conf znode_stat) w = bridge_to_ioloop f new_conf znode_stat w"
| "step json_loads RunCallback w = run_callback json_loads w"
| "step json_loads (Tick t) w = tick t w"
| "step json_loads (Resolve i r) w = resolve i r w"

fun run :: "(string \<Rightarrow> py_error + json) \<Rightarrow> action list \<Rightarrow> world \<Rightarrow> world" where
  "run json_loads [] w = w"
| "run json_loads (s # ss) w = run json_loads ss (step json_loads s w)"

subsection \<open>Slots\<close>

text \<open>The attributes of the manager, read by category.\<close>

fun slot_log :: "category \<Rightarrow> world \<Rightarrow> log_ref option" where
  "slot_log Nodes w = nodes_profile_log w"
| "slot_log Processes w = processes_profile_log w"
| "slot_log Proxies w = proxies_profile_log w"

fun slot_task :: "category \<Rightarrow> world \<Rightarrow> task_ref option" where
  "slot_task Nodes w = nodes_profile_task w"
| "slot_task Processes w = processes_profile_task w"
| "slot_task Proxies w = proxies_profile_task w"

fun source_of :: "category \<Rightarrow> stats_source" where
  "source_of Nodes = ClusterNodesStatsSource"
| "source_of Processes = ClusterProcessesStatsSource"
| "source_of Proxies = ClusterProxiesStatsSource"

text \<open>The payloads used in the examples below, and the value \<^verbatim>\<open>json.loads\<close> has on
  each of them; the last one is not JSON, and \<^verbatim>\<open>json.loads\<close> raises ValueError on it.
  The examples use no other payload.\<close>

definition on_5 :: string where
  \<open>on_5 = ''{"enabled": true, "interval": 5}''\<close>

definition on_10 :: string where
  \<open>on_10 = ''{"enabled": true, "interval": 10}''\<close>

definition off_5 :: string where
  \<open>off_5 = ''{"enabled": false, "interval": 5}''\<close>

definition on_5_plain :: string where
  \<open>on_5_plain = ''{"enabled": true, "interval": 5, "detailed": false}''\<close>

definition on_5_detailed :: string where
  \<open>on_5_detailed = ''{"enabled": true, "interval": 5, "detailed": true}''\<close>

definition on_10_detailed :: string where
  \<open>on_10_detailed = ''{"enabled": true, "interval": 10, "detailed": true}''\<close>

definition off_5_plain :: string where
  \<open>off_5_plain = ''{"enabled": false, "interval": 5, "detailed": false}''\<close>

definition only_disabled :: string where
  \<open>only_disabled = ''{"enabled": false}''\<close>

definition not_json :: string where
  \<open>not_json = ''enabled: true''\<close>

definition example_loads :: "string \<Rightarrow> py_error + json" where
  "example_loads s =
     (if s = on_5 then
        Inr (JObject [(''enabled'', JBool True), (''interval'', JInt 5)])
      else if s = on_10 then
        Inr (JObject [(''enabled'', JBool True), (''interval'', JInt 10)])
      else if s = off_5 then
        Inr (JObject [(''enabled'', JBool False), (''interval'', JInt 5)])
      else if s = on_5_plain then
        Inr (JObject [(''enabled'', JBool True), (''interval'', JInt 5),
                      (''detailed'', JBool False)])
      else if s = on_5_detailed then
        Inr (JObject [(''enabled'', JBool True), (''interval'', JInt 5),
                      (''detailed'', JBool True)])
      else if s = on_10_detailed then
        Inr (JObject [(''enabled'', JBool True), (''interval'', JInt 10),
                      (''detailed'', JBool True)])
      else if s = off_5_plain then
        Inr (JObject [(''enabled'', JBool False), (''interval'', JInt 5),
                      (''detailed'', JBool False)])
      else if s = only_disabled then
        Inr (JObject [(''enabled'', JBool False)])
      else Inl ValueError)"

subsection \<open>The handlers, by category\<close>

text \<open>
  The three handlers differ in the attributes they use, in the stats source and log
  class, in their messages, and in the key \<^verbatim>\<open>"detailed"\<close> that the nodes handler
  does not read. \<open>update_profiling_conf\<close> is their common shape; \<open>call_eq\<close> below
  proves that each handler is an instance of it.
\<close>

fun set_slot_log :: "category \<Rightarrow> log_ref option \<Rightarrow> world \<Rightarrow> world" where
  "set_slot_log Nodes v w = w\<lparr>nodes_profile_log := v\<rparr>"
| "set_slot_log Processes v w = w\<lparr>processes_profile_log := v\<rparr>"
| "set_slot_log Proxies v w = w\<lparr>proxies_profile_log := v\<rparr>"

fun set_slot_task :: "category \<Rightarrow> task_ref option \<Rightarrow> world \<Rightarrow> world" where
  "set_slot_task Nodes v w = w\<lparr>nodes_profile_task := v\<rparr>"
| "set_slot_task Processes v w = w\<lparr>processes_profile_task := v\<rparr>"
| "set_slot_task Proxies v w = w\<lparr>proxies_profile_task := v\<rparr>"

fun debug_message :: "category \<Rightarrow> string" where
  "debug_message Nodes = ''No node stats profiling configs are specified yet''"
| "debug_message Processes = ''No processes stats profiling configs are specified yet''"
| "debug_message Proxies = ''No proxies stats profiling configs are specified yet''"

fun info_message :: "category \<Rightarrow> string \<Rightarrow> string" where
  "info_message Nodes raw = ''New nodes stats profiling configs: '' @ raw"
| "info_message Processes raw = ''New processes stats profiling configs: '' @ raw"
| "info_message Proxies raw = ''New proxies stats profiling configs: '' @ raw"

text \<open>The keys a handler reads, in the order it reads them.\<close>

fun required_keys :: "category \<Rightarrow> string list" where
  "required_keys Nodes = [''enabled'', ''interval'']"
| "required_keys Processes = [''enabled'', ''interval'', ''detailed'']"
| "required_keys Proxies = [''enabled'', ''interval'', ''detailed'']"

text \<open>The reads \<^verbatim>\<open>conf["enabled"]\<close>, \<^verbatim>\<open>conf["interval"]\<close> and, except for nodes,
  \<^verbatim>\<open>conf["detailed"]\<close>, all made before \<^verbatim>\<open>enabled\<close> is looked at.\<close>

definition read_conf :: "category \<Rightarrow> json \<Rightarrow> py_error + (json \<times> json \<times> json option)" where
  "read_conf c conf =
     (case getitem conf ''enabled'' of Inl e \<Rightarrow> Inl e | Inr enabled \<Rightarrow>
     (case getitem conf ''interval'' of Inl e \<Rightarrow> Inl e | Inr interval \<Rightarrow>
       (if c = Nodes then Inr (enabled, interval, None)
        else (case getitem conf ''detailed'' of Inl e \<Rightarrow> Inl e
              | Inr detailed \<Rightarrow> Inr (enabled, interval, Some detailed)))))"

definition load_conf :: "(string \<Rightarrow> py_error + json) \<Rightarrow> category \<Rightarrow> string \<Rightarrow> py_error + (json \<times> json \<times> json option)" where
  "load_conf json_loads c raw =
     (case json_loads raw of Inl e \<Rightarrow> Inl e | Inr conf \<Rightarrow> read_conf c conf)"

text \<open>The branch \<^verbatim>\<open>if enabled:\<close>, first up to the call of \<^verbatim>\<open>_configure_profiling\<close>
  (the log is created if the slot has none, the detail flag is assigned for processes
  and proxies, the stored periodic callback is stopped), then the rest.\<close>

definition prepare :: "category \<Rightarrow> json option \<Rightarrow> world \<Rightarrow> log_ref \<times> world" where
  "prepare c detailed w1 =
     (let (l, w2) =
            (case slot_log c w1 of
               None \<Rightarrow>
                 (let (l', w') = new_profile_log c DEFAULT_INCLUDE_LISTS w1
                  in (l', set_slot_log c (Some l') w'))
             | Some l' \<Rightarrow> (l', w1));
          w3 = (case detailed of None \<Rightarrow> w2 | Some d \<Rightarrow> set_write_detailed_stats l d w2);
          w4 = (case slot_task c w3 of Some t \<Rightarrow> stop t w3 | None \<Rightarrow> w3)
      in (l, w4))"

definition enable :: "category \<Rightarrow> json \<Rightarrow> json option \<Rightarrow> world \<Rightarrow> py_error option \<times> world" where
  "enable c interval detailed w1 =
     (let (l, w4) = prepare c detailed w1
      in (case configure_profiling (source_of c) l interval w4 of
            (Inl e, w5) \<Rightarrow> (Some e, w5)
          | (Inr t, w5) \<Rightarrow> start t (set_slot_task c (Some t) w5)))"

text \<open>The branch \<^verbatim>\<open>elif self.<category>_profile_task:\<close>.\<close>

definition disable :: "category \<Rightarrow> world \<Rightarrow> py_error option \<times> world" where
  "disable c w1 =
     (case slot_task c w1 of
        Some t \<Rightarrow> (None, set_slot_task c None (stop t w1))
      | None \<Rightarrow> (None, w1))"

definition update_profiling_conf ::
  "(string \<Rightarrow> py_error + json) \<Rightarrow> category \<Rightarrow> string option \<Rightarrow> znode_stat \<Rightarrow> world \<Rightarrow> py_error option \<times> world" where
  "update_profiling_conf json_loads c new_conf znode_stat w =
     (case new_conf of
        None \<Rightarrow> (None, emit (LoggingDebug (debug_message c)) w)
      | Some raw \<Rightarrow>
          (if raw = [] then (None, emit (LoggingDebug (debug_message c)) w)
           else (case load_conf json_loads c raw of
                   Inl e \<Rightarrow> (Some e, emit (LoggingInfo (info_message c raw)) w)
                 | Inr (enabled, interval, detailed) \<Rightarrow>
                     (if truthy enabled
                      then enable c interval detailed (emit (LoggingInfo (info_message c raw)) w)
                      else disable c (emit (LoggingInfo (info_message c raw)) w)))))"

subsection \<open>Notions used in the properties\<close>

text \<open>An interval with which \<^verbatim>\<open>PeriodicCallback(..., interval*1000)\<close> is built and
  started without an exception. With Tornado 4 these are the positive numbers that
  are not too large.\<close>

definition accepted :: "world \<Rightarrow> json \<Rightarrow> bool" where
  "accepted w interval =
     (case times_1000 interval of
        Inl e \<Rightarrow> False
      | Inr ct \<Rightarrow> init_raises (library w) ct = None \<and> start_raises (library w) ct = None)"

text \<open>The exception raised by the first of the given key reads that fails.\<close>

fun first_failure :: "json \<Rightarrow> string list \<Rightarrow> py_error option" where
  "first_failure conf [] = None"
| "first_failure conf (k # ks) =
     (case getitem conf k of Inl e \<Rightarrow> Some e | Inr v \<Rightarrow> first_failure conf ks)"

text \<open>The values of \<^verbatim>\<open>max_age\<close> in the fetches of a trace.\<close>

fun fetch_ages :: "event list \<Rightarrow> int list" where
  "fetch_ages [] = []"
| "fetch_ages (GetCurrentAsync src max_age # es) = max_age # fetch_ages es"
| "fetch_ages (e # es) = fetch_ages es"

text \<open>The periodic callbacks of a category that are started and not stopped.\<close>

definition active_tasks :: "category \<Rightarrow> world \<Rightarrow> task_ref list" where
  "active_tasks c w =
     filter (\<lambda>t. running (tasks w ! t) \<and> stats_source (tasks w ! t) = source_of c)
       [0..<length (tasks w)]"

text \<open>Replaying a trace: the timers that are on after each event, and the largest
  number of them that satisfy \<open>P\<close> at any moment of the trace.\<close>

fun apply_event :: "event \<Rightarrow> task_ref list \<Rightarrow> task_ref list" where
  "apply_event (PeriodicCallbackStart t) A = List.insert t A"
| "apply_event (PeriodicCallbackStop t) A = removeAll t A"
| "apply_event _ A = A"

fun active_after :: "event list \<Rightarrow> task_ref list \<Rightarrow> task_ref list" where
  "active_after [] A = A"
| "active_after (e # es) A = active_after es (apply_event e A)"

fun peak :: "(task_ref \<Rightarrow> bool) \<Rightarrow> event list \<Rightarrow> task_ref list \<Rightarrow> nat" where
  "peak P [] A = length (filter P A)"
| "peak P (e # es) A = max (length (filter P A)) (peak P es (apply_event e A))"

definition peak_active :: "category \<Rightarrow> world \<Rightarrow> nat" where
  "peak_active c w = peak (\<lambda>t. stats_source (tasks w ! t) = source_of c) (trace w) []"

fun started :: "event list \<Rightarrow> task_ref list" where
  "started [] = []"
| "started (PeriodicCallbackStart t # es) = t # started es"
| "started (e # es) = started es"

text \<open>The fetches made from a stats source, and the writes made to a log, in a trace.\<close>

fun is_fetch :: "stats_source \<Rightarrow> event \<Rightarrow> bool" where
  "is_fetch src (GetCurrentAsync src' max_age) = (src' = src)"
| "is_fetch src _ = False"

definition fetches :: "category \<Rightarrow> world \<Rightarrow> event list" where
  "fetches c w = filter (is_fetch (source_of c)) (trace w)"

text \<open>Time passing: timers fire, futures complete and watches deliver values, but the
  IOLoop runs no scheduled update.\<close>

fun time_passes :: "action \<Rightarrow> bool" where
  "time_passes RunCallback = False"
| "time_passes _ = True"

text \<open>The references of the manager point to existing objects of the right kind, and
  a running periodic callback is the one its category's slot refers to.\<close>

definition wf :: "world \<Rightarrow> bool" where
  "wf w \<longleftrightarrow>
     (\<forall>c t. slot_task c w = Some t \<longrightarrow>
        t < length (tasks w) \<and> stats_source (tasks w ! t) = source_of c) \<and>
     (\<forall>c l. slot_log c w = Some l \<longrightarrow> l < length (logs w)) \<and>
     (\<forall>c t. t < length (tasks w) \<longrightarrow> running (tasks w ! t) \<longrightarrow>
        stats_source (tasks w ! t) = source_of c \<longrightarrow> slot_task c w = Some t)"

text \<open>The trace agrees with the objects: replaying it gives the running callbacks,
  it starts only callbacks that exist, and never has two of a category on.\<close>

definition traced :: "world \<Rightarrow> bool" where
  "traced w \<longleftrightarrow>
     distinct (active_after (trace w) []) \<and>
     set (active_after (trace w) []) = {t. t < length (tasks w) \<and> running (tasks w ! t)} \<and>
     (\<forall>t \<in> set (started (trace w)). t < length (tasks w)) \<and>
     (\<forall>c. peak_active c w \<le> 1)"

section \<open>Properties\<close>

lemma call_nodes:
  "update_nodes_profiling_conf json_loads new_conf znode_stat w =
   update_profiling_conf json_loads Nodes new_conf znode_stat w"
  unfolding update_profiling_conf_def update_nodes_profiling_conf_def load_conf_def
    read_conf_def enable_def prepare_def disable_def
  by (simp add: Let_def split: option.split sum.split prod.split)

lemma call_processes:
  "update_processes_profiling_conf json_loads new_conf znode_stat w =
   update_profiling_conf json_loads Processes new_conf znode_stat w"
  unfolding update_profiling_conf_def update_processes_profiling_conf_def load_conf_def
    read_conf_def enable_def prepare_def disable_def
  by (simp add: Let_def split: option.split sum.split prod.split)

lemma call_proxies:
  "update_proxies_profiling_conf json_loads new_conf znode_stat w =
   update_profiling_conf json_loads Proxies new_conf znode_stat w"
  unfolding update_profiling_conf_def update_proxies_profiling_conf_def load_conf_def
    read_conf_def enable_def prepare_def disable_def
  by (simp add: Let_def split: option.split sum.split prod.split)

lemma call_eq:
  "call json_loads c new_conf znode_stat w =
   update_profiling_conf json_loads c new_conf znode_stat w"
  by (cases c) (simp_all add: call_nodes call_processes call_proxies)

lemma emit_simps [simp]:
  "slot_log c (emit e w) = slot_log c w"
  "slot_task c (emit e w) = slot_task c w"
  "logs (emit e w) = logs w"
  "tasks (emit e w) = tasks w"
  "callbacks (emit e w) = callbacks w"
  "futures (emit e w) = futures w"
  "trace (emit e w) = trace w @ [e]"
  "library (emit e w) = library w"
  by (cases c; simp add: emit_def)+

lemma stop_simps [simp]:
  "slot_log c (stop t w) = slot_log c w"
  "slot_task c (stop t w) = slot_task c w"
  "logs (stop t w) = logs w"
  "tasks (stop t w) = (tasks w)[t := (tasks w ! t)\<lparr>running := False, scheduled := False\<rparr>]"
  "callbacks (stop t w) = callbacks w"
  "futures (stop t w) = futures w"
  "trace (stop t w) = trace w @ [PeriodicCallbackStop t]"
  "library (stop t w) = library w"
  by (cases c; simp add: stop_def emit_def)+

lemma start_simps [simp]:
  "fst (start t w) = start_raises (library w) (callback_time (tasks w ! t))"
  "slot_log c (snd (start t w)) = slot_log c w"
  "slot_task c (snd (start t w)) = slot_task c w"
  "logs (snd (start t w)) = logs w"
  "tasks (snd (start t w)) =
     (tasks w)[t := (tasks w ! t)\<lparr>running := True,
        scheduled := (start_raises (library w) (callback_time (tasks w ! t)) = None)\<rparr>]"
  "callbacks (snd (start t w)) = callbacks w"
  "futures (snd (start t w)) = futures w"
  "trace (snd (start t w)) = trace w @ [PeriodicCallbackStart t]"
  "library (snd (start t w)) = library w"
  by (cases c; simp add: start_def emit_def Let_def)+

lemma set_slot_log_simps [simp]:
  "slot_log c' (set_slot_log c v w) = (if c' = c then v else slot_log c' w)"
  "slot_task c' (set_slot_log c v w) = slot_task c' w"
  "logs (set_slot_log c v w) = logs w"
  "tasks (set_slot_log c v w) = tasks w"
  "callbacks (set_slot_log c v w) = callbacks w"
  "futures (set_slot_log c v w) = futures w"
  "trace (set_slot_log c v w) = trace w"
  "library (set_slot_log c v w) = library w"
  by (cases c; cases c'; simp)+

lemma set_slot_task_simps [simp]:
  "slot_log c' (set_slot_task c v w) = slot_log c' w"
  "slot_task c' (set_slot_task c v w) = (if c' = c then v else slot_task c' w)"
  "logs (set_slot_task c v w) = logs w"
  "tasks (set_slot_task c v w) = tasks w"
  "callbacks (set_slot_task c v w) = callbacks w"
  "futures (set_slot_task c v w) = futures w"
  "trace (set_slot_task c v w) = trace w"
  "library (set_slot_task c v w) = library w"
  by (cases c; cases c'; simp)+

lemma new_profile_log_simps [simp]:
  "fst (new_profile_log k incl w) = length (logs w)"
  "slot_log c (snd (new_profile_log k incl w)) = slot_log c w"
  "slot_task c (snd (new_profile_log k incl w)) = slot_task c w"
  "logs (snd (new_profile_log k incl w)) =
     logs w @ [\<lparr>log_class = k, log_include_lists = incl, write_detailed_stats = None\<rparr>]"
  "tasks (snd (new_profile_log k incl w)) = tasks w"
  "callbacks (snd (new_profile_log k incl w)) = callbacks w"
  "futures (snd (new_profile_log k incl w)) = futures w"
  "trace (snd (new_profile_log k incl w)) = trace w"
  "library (snd (new_profile_log k incl w)) = library w"
  by (cases c; simp add: new_profile_log_def)+

lemma set_write_detailed_stats_simps [simp]:
  "slot_log c (set_write_detailed_stats l v w) = slot_log c w"
  "slot_task c (set_write_detailed_stats l v w) = slot_task c w"
  "logs (set_write_detailed_stats l v w) = (logs w)[l := (logs w ! l)\<lparr>write_detailed_stats := Some v\<rparr>]"
  "tasks (set_write_detailed_stats l v w) = tasks w"
  "callbacks (set_write_detailed_stats l v w) = callbacks w"
  "futures (set_write_detailed_stats l v w) = futures w"
  "trace (set_write_detailed_stats l v w) = trace w"
  "library (set_write_detailed_stats l v w) = library w"
  by (cases c; simp add: set_write_detailed_stats_def)+

lemma configure_profiling_error:
  "fst (configure_profiling src prof interval w) = Inl e \<Longrightarrow>
   snd (configure_profiling src prof interval w) = w"
  by (simp add: configure_profiling_def PeriodicCallback_def split: sum.splits option.splits)

lemma configure_profiling_simps:
  assumes "fst (configure_profiling src prof interval w) = Inr t"
  shows "t = length (tasks w)"
    "slot_log c (snd (configure_profiling src prof interval w)) = slot_log c w"
    "slot_task c (snd (configure_profiling src prof interval w)) = slot_task c w"
    "logs (snd (configure_profiling src prof interval w)) = logs w"
    "callbacks (snd (configure_profiling src prof interval w)) = callbacks w"
    "futures (snd (configure_profiling src prof interval w)) = futures w"
    "trace (snd (configure_profiling src prof interval w)) = trace w"
    "library (snd (configure_profiling src prof interval w)) = library w"
  using assms
  by (cases c; simp add: configure_profiling_def PeriodicCallback_def
        split: sum.splits option.splits)+


lemma configure_profiling_accepted:
  assumes "times_1000 interval = Inr ct" and "init_raises (library w) ct = None"
  shows "configure_profiling src prof interval w =
     (Inr (length (tasks w)),
      w\<lparr>tasks := tasks w @ [\<lparr>stats_source = src, profiler = prof, callback_time = ct,
                              running = False, scheduled = False\<rparr>]\<rparr>)"
  using assms by (simp add: configure_profiling_def PeriodicCallback_def)

lemma all_category: "(\<forall>c. P c) \<longleftrightarrow> P Nodes \<and> P Processes \<and> P Proxies"
  by (metis category.exhaust)

lemma source_of_inj [simp]: "source_of c = source_of c' \<longleftrightarrow> c = c'"
  by (cases c; cases c'; simp)

lemma source_of_surj: "\<exists>c. source_of c = s"
  by (cases s) (auto intro: exI[of _ Nodes] exI[of _ Processes] exI[of _ Proxies])








lemma distinct_apply_event: "distinct A \<Longrightarrow> distinct (apply_event e A)"
  by (cases e) (simp_all add: distinct_removeAll)

lemma distinct_active_after: "distinct A \<Longrightarrow> distinct (active_after es A)"
  by (induction es arbitrary: A) (simp_all add: distinct_apply_event)

lemmas payload_defs = on_5_def on_10_def off_5_def on_5_plain_def on_5_detailed_def
  on_10_detailed_def off_5_plain_def only_disabled_def not_json_def

lemmas eval_defs = payload_defs example_loads_def init_def manager_def tornado_4_def Let_def
  bridge_to_ioloop_def add_callback_def run_callback_def
  update_nodes_profiling_conf_def update_processes_profiling_conf_def
  update_proxies_profiling_conf_def logged_def emit_def new_profile_log_def
  configure_profiling_def PeriodicCallback_def start_def stop_def tick_def resolve_def
  write_stats_callback_def profiling_periodical_callback_def set_write_detailed_stats_def

lemma update_empty:
  "new_conf = None \<or> new_conf = Some [] \<Longrightarrow>
   update_profiling_conf jl c new_conf z w = (None, emit (LoggingDebug (debug_message c)) w)"
  by (auto simp: update_profiling_conf_def)

lemma update_error:
  "raw \<noteq> [] \<Longrightarrow> load_conf jl c raw = Inl e \<Longrightarrow>
   update_profiling_conf jl c (Some raw) z w = (Some e, emit (LoggingInfo (info_message c raw)) w)"
  by (simp add: update_profiling_conf_def)

lemma update_enable:
  "raw \<noteq> [] \<Longrightarrow> load_conf jl c raw = Inr (en, iv, d) \<Longrightarrow> truthy en \<Longrightarrow>
   update_profiling_conf jl c (Some raw) z w = enable c iv d (emit (LoggingInfo (info_message c raw)) w)"
  by (simp add: update_profiling_conf_def)

lemma update_disable:
  "raw \<noteq> [] \<Longrightarrow> load_conf jl c raw = Inr (en, iv, d) \<Longrightarrow> \<not> truthy en \<Longrightarrow>
   update_profiling_conf jl c (Some raw) z w = disable c (emit (LoggingInfo (info_message c raw)) w)"
  by (simp add: update_profiling_conf_def)

text \<open>
  Claim C6. For every handler and every world, an absent (\<open>None\<close>) or empty value
  returns without an exception and leaves every attribute of the manager, every log
  and every periodic callback, running or stopped, as it was; the only effect is the
  debug message.
\<close>

theorem empty_conf_changes_nothing:
  "new_conf = None \<or> new_conf = Some [] \<Longrightarrow>
   call json_loads c new_conf znode_stat w =
     (None, w\<lparr>trace := trace w @ [LoggingDebug (debug_message c)]\<rparr>)"
  by (simp add: call_eq update_empty emit_def)

theorem empty_conf_changes_nothing_witness:
  "(Some [] = None \<or> Some [] = Some ([] :: string)) \<and>
   call example_loads Processes (Some []) (ZnodeStat 2)
     (snd (call example_loads Processes (Some on_5_plain) (ZnodeStat 1) init)) =
   (None, (snd (call example_loads Processes (Some on_5_plain) (ZnodeStat 1) init))
      \<lparr>trace := trace (snd (call example_loads Processes (Some on_5_plain) (ZnodeStat 1) init))
                 @ [LoggingDebug ''No processes stats profiling configs are specified yet'']\<rparr>) \<and>
   processes_profile_task (snd (call example_loads Processes (Some on_5_plain) (ZnodeStat 1) init)) = Some 0 \<and>
   running (tasks (snd (call example_loads Processes (Some on_5_plain) (ZnodeStat 1) init)) ! 0)"
  using empty_conf_changes_nothing [of "Some []" example_loads Processes "ZnodeStat 2"
      "snd (call example_loads Processes (Some on_5_plain) (ZnodeStat 1) init)"]
  by (simp add: eval_defs)

lemma read_conf_error:
  assumes "k \<in> set (required_keys c)" and "isl (getitem conf k)"
  shows "isl (read_conf c conf)"
proof (cases "getitem conf ''enabled''")
  case (Inl e)
  then show ?thesis by (simp add: read_conf_def)
next
  case en: (Inr enabled)
  show ?thesis
  proof (cases "getitem conf ''interval''")
    case (Inl e)
    with en show ?thesis by (simp add: read_conf_def)
  next
    case iv: (Inr interval)
    show ?thesis
    proof (cases "getitem conf ''detailed''")
      case (Inl e)
      with assms en iv show ?thesis by (cases c) (auto simp: read_conf_def)
    next
      case (Inr detailed)
      with assms en iv show ?thesis by (cases c) auto
    qed
  qed
qed

lemma load_conf_error:
  assumes "(\<exists>e. jl raw = Inl e) \<or>
     (\<exists>conf k. jl raw = Inr conf \<and> k \<in> set (required_keys c) \<and> isl (getitem conf k))"
  shows "\<exists>e. load_conf jl c raw = Inl e"
proof (cases "jl raw")
  case (Inl e)
  then show ?thesis by (simp add: load_conf_def)
next
  case (Inr conf)
  with assms obtain k where "k \<in> set (required_keys c)" "isl (getitem conf k)" by auto
  then have "isl (read_conf c conf)" by (rule read_conf_error)
  then obtain e where "read_conf c conf = Inl e" by (cases "read_conf c conf") auto
  with Inr show ?thesis by (simp add: load_conf_def)
qed

lemma load_conf_missing_key:
  assumes "jl raw = Inr (JObject kvs)"
    and "map_of kvs ''interval'' = None \<or> (c \<noteq> Nodes \<and> map_of kvs ''detailed'' = None)"
  shows "\<exists>k \<in> set (required_keys c). map_of kvs k = None \<and> load_conf jl c raw = Inl (KeyError k)"
  using assms
  by (cases c; cases "map_of kvs ''enabled''"; cases "map_of kvs ''interval''";
      cases "map_of kvs ''detailed''")
     (auto simp: load_conf_def read_conf_def)

text \<open>
  Claim C8. The wrapper the bridge returns adds one entry, the update function with
  the two arguments it was called with, at the end of the IOLoop's queue, and changes
  nothing else: the update function has not run when the wrapper returns. When the
  loop reaches the entry it calls the update function with these two arguments.
\<close>

theorem bridge_schedules_once:
  "bridge_to_ioloop f new_conf znode_stat w =
     w\<lparr>callbacks := callbacks w @ [(f, new_conf, znode_stat)]\<rparr> \<and>
   (callbacks w = [] \<longrightarrow>
      run_callback json_loads (bridge_to_ioloop f new_conf znode_stat w) =
        logged (call json_loads f new_conf znode_stat w))"
proof (cases "callbacks w = []")
  case True
  then have "w\<lparr>callbacks := []\<rparr> = w"
    by (cases w) simp
  then show ?thesis
    by (simp add: bridge_to_ioloop_def add_callback_def run_callback_def)
next
  case False
  then show ?thesis
    by (simp add: bridge_to_ioloop_def add_callback_def)
qed

theorem bridge_schedules_once_witness:
  "callbacks init = [] \<and>
   bridge_to_ioloop Nodes (Some on_5) (ZnodeStat 1) init =
     init\<lparr>callbacks := [(Nodes, Some on_5, ZnodeStat 1)]\<rparr> \<and>
   run_callback example_loads (bridge_to_ioloop Nodes (Some on_5) (ZnodeStat 1) init) =
     logged (call example_loads Nodes (Some on_5) (ZnodeStat 1) init) \<and>
   nodes_profile_task (bridge_to_ioloop Nodes (Some on_5) (ZnodeStat 1) init) = None \<and>
   nodes_profile_task
     (run_callback example_loads (bridge_to_ioloop Nodes (Some on_5) (ZnodeStat 1) init)) = Some 0"
  using bridge_schedules_once [of Nodes "Some on_5" "ZnodeStat 1" init example_loads]
  by (simp add: eval_defs)

text \<open>
  Claim C10. Every handler reads all the keys of its category before it looks at
  \<open>enabled\<close>: when the payload parses to a JSON object that lacks \<open>interval\<close>, or,
  for processes and proxies, \<open>detailed\<close>, a KeyError for a missing key escapes the
  handler, whatever the value of \<open>enabled\<close>, and nothing but the info message has
  happened: no reference, log or periodic callback has changed.
\<close>

theorem missing_key_raises_KeyError:
  assumes "raw \<noteq> []"
    and "json_loads raw = Inr (JObject kvs)"
    and "map_of kvs ''interval'' = None \<or> (c \<noteq> Nodes \<and> map_of kvs ''detailed'' = None)"
  shows "\<exists>k \<in> set (required_keys c). map_of kvs k = None \<and>
           call json_loads c (Some raw) znode_stat w =
             (Some (KeyError k), w\<lparr>trace := trace w @ [LoggingInfo (info_message c raw)]\<rparr>)"
proof -
  from load_conf_missing_key [of json_loads raw kvs c, OF assms(2,3)]
  obtain k where k: "k \<in> set (required_keys c)" "map_of kvs k = None"
    "load_conf json_loads c raw = Inl (KeyError k)" by blast
  from update_error [OF assms(1) k(3)]
  have "call json_loads c (Some raw) znode_stat w =
          (Some (KeyError k), w\<lparr>trace := trace w @ [LoggingInfo (info_message c raw)]\<rparr>)"
    by (simp add: call_eq emit_def)
  with k show ?thesis by blast
qed

theorem missing_key_raises_KeyError_witness:
  "only_disabled \<noteq> [] \<and>
   example_loads only_disabled = Inr (JObject [(''enabled'', JBool False)]) \<and>
   map_of [(''enabled'', JBool False)] ''interval'' = None \<and>
   call example_loads Processes (Some only_disabled) (ZnodeStat 2)
       (snd (call example_loads Processes (Some on_5_plain) (ZnodeStat 1) init)) =
     (Some (KeyError ''interval''),
      (snd (call example_loads Processes (Some on_5_plain) (ZnodeStat 1) init))
        \<lparr>trace := trace (snd (call example_loads Processes (Some on_5_plain) (ZnodeStat 1) init))
           @ [LoggingInfo (info_message Processes only_disabled)]\<rparr>)"
  using missing_key_raises_KeyError [of only_disabled example_loads
      "[(''enabled'', JBool False)]" Processes "ZnodeStat 2"
      "snd (call example_loads Processes (Some on_5_plain) (ZnodeStat 1) init)"]
  by (simp add: eval_defs)

lemma getitem_error: "getitem conf k = Inl e \<Longrightarrow> e = TypeError \<or> e = KeyError k"
  by (cases conf) (auto split: option.splits)

lemma first_failure_key:
  "first_failure conf ks = Some e \<Longrightarrow> \<exists>k \<in> set ks. getitem conf k = Inl e"
  by (induction ks) (auto split: sum.splits)

lemma first_failure_exists:
  "k \<in> set ks \<Longrightarrow> isl (getitem conf k) \<Longrightarrow> \<exists>e. first_failure conf ks = Some e"
  by (induction ks) (auto split: sum.splits)

lemma read_conf_first_failure:
  "read_conf c conf = Inl e \<longleftrightarrow> first_failure conf (required_keys c) = Some e"
  by (cases c; cases "getitem conf ''enabled''"; cases "getitem conf ''interval''";
      cases "getitem conf ''detailed''")
     (simp_all add: read_conf_def)

text \<open>
  Claim C1, as the code has it. The handlers catch nothing. A payload that is not
  empty and does not parse, or whose document does not give one of the keys the
  handler reads, makes the handler raise: the exception of the parser when the
  payload does not parse, and otherwise the exception of the first key read that
  fails, a TypeError when the document is not an object and a KeyError for the key
  when it is missing. The exception leaves the handler after the info message and
  before anything else: no reference, log or periodic callback has changed.
\<close>

theorem malformed_conf_raises_and_keeps_state:
  assumes "raw \<noteq> []"
    and "(\<exists>e. json_loads raw = Inl e) \<or>
         (\<exists>conf k. json_loads raw = Inr conf \<and> k \<in> set (required_keys c) \<and>
                   isl (getitem conf k))"
  shows "\<exists>e. call json_loads c (Some raw) znode_stat w =
                (Some e, w\<lparr>trace := trace w @ [LoggingInfo (info_message c raw)]\<rparr>) \<and>
              (json_loads raw = Inl e \<or>
               (\<exists>conf k. json_loads raw = Inr conf \<and> k \<in> set (required_keys c) \<and>
                   first_failure conf (required_keys c) = Some e \<and>
                   getitem conf k = Inl e \<and> (e = TypeError \<or> e = KeyError k)))"
proof (cases "json_loads raw")
  case (Inl e)
  then have "load_conf json_loads c raw = Inl e" by (simp add: load_conf_def)
  from update_error [OF assms(1) this] Inl show ?thesis
    by (simp add: call_eq emit_def)
next
  case (Inr conf)
  with assms(2) obtain k0 where "k0 \<in> set (required_keys c)" "isl (getitem conf k0)"
    by auto
  then obtain e where e: "first_failure conf (required_keys c) = Some e"
    using first_failure_exists by blast
  then obtain k where k: "k \<in> set (required_keys c)" "getitem conf k = Inl e"
    using first_failure_key by blast
  from e have "load_conf json_loads c raw = Inl e"
    by (simp add: load_conf_def Inr read_conf_first_failure)
  from update_error [OF assms(1) this]
  have "call json_loads c (Some raw) znode_stat w =
          (Some e, w\<lparr>trace := trace w @ [LoggingInfo (info_message c raw)]\<rparr>)"
    by (simp add: call_eq emit_def)
  with Inr e k getitem_error [OF k(2)] show ?thesis by blast
qed

theorem malformed_conf_raises_and_keeps_state_witness:
  "not_json \<noteq> [] \<and> example_loads not_json = Inl ValueError \<and>
   call example_loads Proxies (Some not_json) (ZnodeStat 2)
       (snd (call example_loads Proxies (Some on_5_plain) (ZnodeStat 1) init)) =
     (Some ValueError,
      (snd (call example_loads Proxies (Some on_5_plain) (ZnodeStat 1) init))
        \<lparr>trace := trace (snd (call example_loads Proxies (Some on_5_plain) (ZnodeStat 1) init))
           @ [LoggingInfo (info_message Proxies not_json)]\<rparr>)"
  using malformed_conf_raises_and_keeps_state [of not_json example_loads Proxies "ZnodeStat 2"
      "snd (call example_loads Proxies (Some on_5_plain) (ZnodeStat 1) init)"]
  by (auto simp: payload_defs example_loads_def)

text \<open>
  Claim C1 as stated fails: text that is not JSON makes the nodes handler raise the
  parser's ValueError, and a JSON object without \<open>interval\<close> makes the processes
  handler raise KeyError.
\<close>

theorem malformed_conf_counterexample:
  "fst (call example_loads Nodes (Some not_json) (ZnodeStat 1) init) = Some ValueError \<and>
   fst (call example_loads Processes (Some only_disabled) (ZnodeStat 1) init) =
     Some (KeyError ''interval'')"
  by (simp add: eval_defs)

subsection \<open>The state after the first half of the enabled branch\<close>



lemma prepare_slot_task [simp]:
  "slot_task c' (snd (prepare c d w)) = slot_task c' w"
  by (simp add: prepare_def split_beta Let_def split: option.split)



lemma prepare_queues [simp]:
  "callbacks (snd (prepare c d w)) = callbacks w"
  "futures (snd (prepare c d w)) = futures w"
  "library (snd (prepare c d w)) = library w"
  "length (tasks (snd (prepare c d w))) = length (tasks w)"
  by (simp_all add: prepare_def split_beta Let_def split: option.split)


lemma prepare_detailed:
  assumes "\<And>l. slot_log c w = Some l \<Longrightarrow> l < length (logs w)"
  shows "write_detailed_stats (logs (snd (prepare c (Some v) w)) ! fst (prepare c (Some v) w)) = Some v"
  using assms
  by (simp add: prepare_def split_beta Let_def nth_append split: option.split)

subsection \<open>Well-formed worlds\<close>

lemma nth_list_update_any:
  "(xs[i := x]) ! j = (if i = j \<and> i < length xs then x else xs ! j)"
  by (cases "i < length xs") (auto simp: nth_list_update list_update_beyond)

lemma source_after_flag [simp]:
  "stats_source ((ts[t := (ts ! t)\<lparr>running := b, scheduled := b'\<rparr>]) ! t') = stats_source (ts ! t')"
  by (simp add: nth_list_update_any)








lemma wf_emit [simp]: "wf (emit e w) = wf w"
  by (simp add: wf_def)

lemma wf_queues [simp]:
  "wf (w\<lparr>callbacks := cs\<rparr>) = wf w"
  "wf (w\<lparr>futures := fs\<rparr>) = wf w"
  by (simp_all add: wf_def all_category)





lemma enable_cases:
  "(\<exists>e. fst (configure_profiling (source_of c) (fst (prepare c d w)) iv (snd (prepare c d w))) = Inl e \<and>
        enable c iv d w = (Some e, snd (prepare c d w))) \<or>
   (\<exists>t. fst (configure_profiling (source_of c) (fst (prepare c d w)) iv (snd (prepare c d w))) = Inr t \<and>
        enable c iv d w =
          start t (set_slot_task c (Some t)
            (snd (configure_profiling (source_of c) (fst (prepare c d w)) iv (snd (prepare c d w))))))"
proof (cases "fst (configure_profiling (source_of c) (fst (prepare c d w)) iv (snd (prepare c d w)))")
  case (Inl e)
  then show ?thesis
    using configure_profiling_error [OF Inl]
    by (simp add: enable_def split_beta split: sum.split)
next
  case (Inr t)
  then show ?thesis
    by (simp add: enable_def split_beta split: sum.split)
qed



subsection \<open>Traces that agree with the periodic callbacks\<close>



lemma traced_slots [simp]:
  "traced (set_slot_log c v w) = traced w"
  "traced (set_slot_task c' v' w) = traced w"
  "traced (set_write_detailed_stats l d w) = traced w"
  "traced (snd (new_profile_log k incl w)) = traced w"
  "traced (w\<lparr>callbacks := cs\<rparr>) = traced w"
  "traced (w\<lparr>futures := fs\<rparr>) = traced w"
  by (simp_all add: traced_def peak_active_def)








lemma active_tasks_same: "tasks w' = tasks w \<Longrightarrow> active_tasks c w' = active_tasks c w"
  by (simp add: active_tasks_def)






subsection \<open>Every world the process reaches is well-formed and traced\<close>

lemma enable_library [simp]: "library (snd (enable c iv d w)) = library w"
  using enable_cases [of c d w iv]
  by (auto simp: configure_profiling_simps)

lemma disable_library [simp]: "library (snd (disable c w)) = library w"
  by (simp add: disable_def split: option.split)

lemma update_library [simp]:
  "library (snd (update_profiling_conf jl c new_conf z w)) = library w"
  by (simp add: update_profiling_conf_def split: option.split sum.split prod.split)



lemma logged_library [simp]: "library (logged r) = library (snd r)"
  by (cases r) (simp add: logged_def split: option.split)

lemma run_callback_cases:
  "(callbacks w = [] \<and> run_callback jl w = w) \<or>
   (\<exists>f new_conf z rest. callbacks w = (f, new_conf, z) # rest \<and>
      run_callback jl w =
        logged (update_profiling_conf jl f new_conf z (w\<lparr>callbacks := rest\<rparr>)))"
  by (cases "callbacks w") (auto simp: run_callback_def call_eq)



lemma run_callback_library [simp]: "library (run_callback jl w) = library w"
  using run_callback_cases [of w jl] by auto

lemma callback_simps [simp]:
  "slot_log c (profiling_periodical_callback src prof w) = slot_log c w"
  "slot_task c (profiling_periodical_callback src prof w) = slot_task c w"
  "logs (profiling_periodical_callback src prof w) = logs w"
  "tasks (profiling_periodical_callback src prof w) = tasks w"
  "callbacks (profiling_periodical_callback src prof w) = callbacks w"
  "futures (profiling_periodical_callback src prof w) = futures w @ [(src, prof)]"
  "trace (profiling_periodical_callback src prof w) = trace w @ [GetCurrentAsync src 0]"
  "library (profiling_periodical_callback src prof w) = library w"
  by (cases c; simp add: profiling_periodical_callback_def emit_def Let_def)+

lemma wf_callback [simp]: "wf (profiling_periodical_callback src prof w) = wf w"
  by (simp add: wf_def)













lemma run_append: "run jl (as @ bs) w = run jl bs (run jl as w)"
  by (induction as arbitrary: w) simp_all

subsection \<open>At most one active periodic callback per category\<close>




subsection \<open>What a handler adds to the trace\<close>



lemma no_fetch_filter: "fetch_ages es = [] \<Longrightarrow> filter (is_fetch s) es = []"
  by (induction es rule: fetch_ages.induct) simp_all














end
